theory Spec2Isabelle
  imports Main "HOL-Library.Word" "HOL-Library.Char_ord" "HOL-Library.List_Lexorder"
begin

section \<open>The products resource of ShoppyApi\<close>

text \<open>
  A shallow embedding of \<^verbatim>\<open>routes/products.py\<close>: the table row, the two request
  schemas, the five handlers and the status codes the framework attaches to them.
  Everything a handler obtains from outside itself is an explicit input: the UUID parser
  and generator, the clock, and whether the storage engine raises during the request.
\<close>

subsection \<open>Data model\<close>

type_synonym uuid = "128 word"

type_synonym timestamp = int

text \<open>\<^verbatim>\<open>class Product(Base)\<close>: one row of the table \<^verbatim>\<open>products\<close>. The column \<^verbatim>\<open>id\<close> is
  called \<open>pid\<close> here, since \<open>id\<close> is the identity function of HOL.\<close>

record Product =
  pid :: uuid
  name :: string
  price :: int
  created_at :: timestamp
  updated_at :: timestamp

text \<open>\<^verbatim>\<open>class ProductBase(BaseModel)\<close>, the response schema: of the fields of a row only
  \<^verbatim>\<open>price\<close> carries a constraint, \<^verbatim>\<open>Field(gt=0)\<close>.\<close>

definition ProductBase_valid :: "Product \<Rightarrow> bool" where
  "ProductBase_valid p = (0 < price p)"

text \<open>\<^verbatim>\<open>class ProductCreate(BaseModel)\<close>: the body of a POST, and its field constraints
  \<^verbatim>\<open>min_length=1, max_length=100\<close> and \<^verbatim>\<open>gt=0\<close>.\<close>

record ProductCreate =
  create_name :: string
  create_price :: int

definition ProductCreate_valid :: "ProductCreate \<Rightarrow> bool" where
  "ProductCreate_valid product =
     (1 \<le> length (create_name product) \<and> length (create_name product) \<le> 100
      \<and> 0 < create_price product)"

text \<open>\<^verbatim>\<open>class ProductUpdate(BaseModel)\<close>: both fields are \<^verbatim>\<open>Optional\<close> with default
  \<^verbatim>\<open>None\<close>. The handler reads the body through \<^verbatim>\<open>dict(exclude_unset=True)\<close>, so a field
  has three states: absent from the body (\<open>Unset\<close>), present with \<^verbatim>\<open>null\<close>
  (\<open>Given None\<close>), present with a value (\<open>Given (Some v)\<close>). The constraints apply to a
  value only; \<^verbatim>\<open>null\<close> passes validation.\<close>

datatype 'a field = Unset | Given "'a option"

record ProductUpdate =
  update_name :: "string field"
  update_price :: "int field"

definition ProductUpdate_valid :: "ProductUpdate \<Rightarrow> bool" where
  "ProductUpdate_valid product =
     ((case update_name product of
         Given (Some n) \<Rightarrow> 1 \<le> length n \<and> length n \<le> 100
       | _ \<Rightarrow> True)
      \<and> (case update_price product of
         Given (Some c) \<Rightarrow> 0 < c
       | _ \<Rightarrow> True))"

text \<open>\<^verbatim>\<open>update_data = product.dict(exclude_unset=True)\<close> is the dictionary of the fields
  that were given; \<^verbatim>\<open>not update_data\<close> holds when it has no key.\<close>

definition update_data_empty :: "ProductUpdate \<Rightarrow> bool" where
  "update_data_empty product = (update_name product = Unset \<and> update_price product = Unset)"

text \<open>The loop \<^verbatim>\<open>for key, value in update_data.items(): setattr(product_to_update, key, value)\<close>,
  unrolled over the two keys the dictionary can hold: an attribute takes the given value
  (which may be \<^verbatim>\<open>None\<close>) and keeps its own when the key is absent.\<close>

definition setattr_field :: "'a field \<Rightarrow> 'a \<Rightarrow> 'a option" where
  "setattr_field f old = (case f of Unset \<Rightarrow> Some old | Given v \<Rightarrow> v)"

subsection \<open>The environment of one request\<close>

text \<open>
  \<^item> \<open>uuid_UUID\<close>: the constructor \<^verbatim>\<open>uuid.UUID(product_id)\<close> of the standard library, with
    \<open>None\<close> for \<^verbatim>\<open>ValueError\<close>. It is a parameter: every theorem holds for whatever
    strings the library accepts.
  \<^item> \<open>uuid4\<close>: the value \<^verbatim>\<open>uuid.uuid4()\<close> returns in this request.
  \<^item> \<open>now\<close>: the clock, read by \<^verbatim>\<open>datetime.datetime.now()\<close> and by the column default
    \<^verbatim>\<open>now()\<close>.
  \<^item> \<open>engine_fails\<close>: the storage engine raises an \<^verbatim>\<open>SQLAlchemyError\<close> other than
    \<^verbatim>\<open>IntegrityError\<close> on the statements of this request (connection lost, value out of
    the column's range, ...).
\<close>

record env =
  uuid_UUID :: "string \<Rightarrow> uuid option"
  uuid4 :: uuid
  now :: timestamp
  engine_fails :: bool

subsection \<open>Storage\<close>

text \<open>The statements a session issues to the engine.\<close>

datatype statement =
  Select_page string int int
| Select_by_id uuid
| Insert_row uuid string int
| Update_row uuid "string option" "int option" timestamp
| Delete_row uuid
| Rollback

text \<open>Modelled from the spec: the persistence gateway \<^verbatim>\<open>lib/db.py\<close> (\<^verbatim>\<open>Base\<close>,
  \<^verbatim>\<open>get_db\<close>, \<^verbatim>\<open>engine\<close>) is not among the sources. Following section 4.2 of the
  specification, \<^verbatim>\<open>db\<close> is a session on one relational table with insert-one, get-by-key,
  list-with-order-limit-offset, update-fields-by-key and delete-by-key. The table is the
  list of its rows in insertion order; \<open>sent\<close> records the statements issued to the
  engine, in order, so that "no storage query" is a property of the model. A statement
  that raises leaves the table as it was. The operations below are the session calls of
  the handlers, each under the call it stands for.\<close>

record Session =
  table :: "Product list"
  sent :: "statement list"

text \<open>\<^verbatim>\<open>IntegrityError\<close> is a subclass of \<^verbatim>\<open>SQLAlchemyError\<close>; the second constructor
  stands for every other subclass.\<close>

datatype db_exn = IntegrityError | OtherSQLAlchemyError

definition send :: "statement \<Rightarrow> Session \<Rightarrow> Session" where
  "send st db = db\<lparr>sent := sent db @ [st]\<rparr>"

text \<open>\<^verbatim>\<open>ORDER BY\<close> a column of the table: a stable sort, so rows with equal keys stay in
  insertion order. A string that names no column does not compile to a statement
  (\<open>None\<close>).\<close>

definition order_rows :: "string \<Rightarrow> Product list \<Rightarrow> Product list option" where
  "order_rows order_by rows =
     (if order_by = ''id'' then Some (sort_key pid rows)
      else if order_by = ''name'' then Some (sort_key name rows)
      else if order_by = ''price'' then Some (sort_key price rows)
      else if order_by = ''created_at'' then Some (sort_key created_at rows)
      else if order_by = ''updated_at'' then Some (sort_key updated_at rows)
      else None)"

text \<open>\<^verbatim>\<open>db.query(Product).order_by(order_by).limit(limit).offset(offset).all()\<close>. The
  engine rejects a negative \<^verbatim>\<open>LIMIT\<close> or \<^verbatim>\<open>OFFSET\<close>.\<close>

definition query_page ::
  "env \<Rightarrow> string \<Rightarrow> int \<Rightarrow> int \<Rightarrow> Session \<Rightarrow> (db_exn + Product list) \<times> Session" where
  "query_page e order_by limit offset db =
     (case order_rows order_by (table db) of
        None \<Rightarrow> (Inl OtherSQLAlchemyError, db)
      | Some rows \<Rightarrow>
          if engine_fails e then
            (Inl OtherSQLAlchemyError, send (Select_page order_by limit offset) db)
          else if limit < 0 then
            (Inl OtherSQLAlchemyError, send (Select_page order_by limit offset) db)
          else if offset < 0 then
            (Inl OtherSQLAlchemyError, send (Select_page order_by limit offset) db)
          else
            (Inr (take (nat limit) (drop (nat offset) rows)),
             send (Select_page order_by limit offset) db))"

text \<open>\<^verbatim>\<open>db.query(Product).filter(Product.id == uuid_obj).first()\<close>.\<close>

definition query_first :: "env \<Rightarrow> uuid \<Rightarrow> Session \<Rightarrow> (db_exn + Product option) \<times> Session" where
  "query_first e u db =
     (if engine_fails e then (Inl OtherSQLAlchemyError, send (Select_by_id u) db)
      else (Inr (find (\<lambda>p. pid p = u) (table db)), send (Select_by_id u) db))"

text \<open>\<^verbatim>\<open>db.add(new_product); db.commit()\<close>: one \<^verbatim>\<open>INSERT\<close>. The primary key rejects an id
  that is already in the table; both timestamps take the column default \<^verbatim>\<open>now()\<close>.\<close>

definition insert_one ::
  "env \<Rightarrow> uuid \<Rightarrow> string \<Rightarrow> int \<Rightarrow> Session \<Rightarrow> (db_exn + unit) \<times> Session" where
  "insert_one e u n c db =
     (if engine_fails e then (Inl OtherSQLAlchemyError, send (Insert_row u n c) db)
      else if find (\<lambda>p. pid p = u) (table db) \<noteq> None then
        (Inl IntegrityError, send (Insert_row u n c) db)
      else
        (Inr (),
         send (Insert_row u n c)
           (db\<lparr>table := table db @
              [\<lparr>pid = u, name = n, price = c, created_at = now e, updated_at = now e\<rparr>]\<rparr>)))"

text \<open>The \<^verbatim>\<open>db.commit()\<close> of an update: one \<^verbatim>\<open>UPDATE ... WHERE id = u\<close>. The columns
  \<^verbatim>\<open>name\<close> and \<^verbatim>\<open>price\<close> are \<^verbatim>\<open>nullable=False\<close>, so a \<^verbatim>\<open>NULL\<close> is a constraint
  violation.\<close>

definition update_by_key ::
  "env \<Rightarrow> uuid \<Rightarrow> string option \<Rightarrow> int option \<Rightarrow> timestamp \<Rightarrow> Session
     \<Rightarrow> (db_exn + unit) \<times> Session" where
  "update_by_key e u n c t db =
     (if engine_fails e then (Inl OtherSQLAlchemyError, send (Update_row u n c t) db)
      else
        (case n of
           None \<Rightarrow> (Inl IntegrityError, send (Update_row u n c t) db)
         | Some n' \<Rightarrow>
            (case c of
               None \<Rightarrow> (Inl IntegrityError, send (Update_row u n c t) db)
             | Some c' \<Rightarrow>
                (Inr (),
                 send (Update_row u n c t)
                   (db\<lparr>table :=
                      map (\<lambda>r. if pid r = u
                                then r\<lparr>name := n', price := c', updated_at := t\<rparr>
                                else r)
                        (table db)\<rparr>)))))"

text \<open>\<^verbatim>\<open>db.delete(product_to_delete); db.commit()\<close>: one \<^verbatim>\<open>DELETE ... WHERE id = u\<close>.\<close>

definition delete_by_key :: "env \<Rightarrow> uuid \<Rightarrow> Session \<Rightarrow> (db_exn + unit) \<times> Session" where
  "delete_by_key e u db =
     (if engine_fails e then (Inl OtherSQLAlchemyError, send (Delete_row u) db)
      else (Inr (), send (Delete_row u) (db\<lparr>table := filter (\<lambda>r. pid r \<noteq> u) (table db)\<rparr>)))"

text \<open>\<^verbatim>\<open>db.refresh(obj)\<close>: reads the row back by its key; a row that is gone is an
  \<^verbatim>\<open>InvalidRequestError\<close>.\<close>

definition refresh :: "env \<Rightarrow> uuid \<Rightarrow> Session \<Rightarrow> (db_exn + Product) \<times> Session" where
  "refresh e u db =
     (if engine_fails e then (Inl OtherSQLAlchemyError, send (Select_by_id u) db)
      else
        (case find (\<lambda>p. pid p = u) (table db) of
           None \<Rightarrow> (Inl OtherSQLAlchemyError, send (Select_by_id u) db)
         | Some p \<Rightarrow> (Inr p, send (Select_by_id u) db)))"

subsection \<open>The handlers\<close>

text \<open>A raised \<^verbatim>\<open>HTTPException\<close> is the left summand of a handler's result, a returned
  value the right one.\<close>

datatype HTTPException = HTTPException (status_code: nat) (detail: string)

text \<open>\<^verbatim>\<open>get_products\<close>. The parameter \<open>page\<close> is accepted and not used. An empty result
  raises an \<^verbatim>\<open>HTTPException\<close> whose status is 200; it is not an \<^verbatim>\<open>SQLAlchemyError\<close>, so
  the \<^verbatim>\<open>except\<close> clause lets it through.\<close>

definition get_products ::
  "env \<Rightarrow> int \<Rightarrow> int \<Rightarrow> int \<Rightarrow> string \<Rightarrow> Session \<Rightarrow> (HTTPException + Product list) \<times> Session" where
  "get_products e page limit offset order_by db =
     (case query_page e order_by limit offset db of
        (Inl exn, db') \<Rightarrow>
          (Inl (HTTPException 500 ''Internal server error while retrieving products''), db')
      | (Inr products, db') \<Rightarrow>
          if products = [] then (Inl (HTTPException 200 ''No products found''), db')
          else (Inr products, db'))"

text \<open>\<^verbatim>\<open>get_product\<close>.\<close>

definition get_product ::
  "env \<Rightarrow> string \<Rightarrow> Session \<Rightarrow> (HTTPException + Product) \<times> Session" where
  "get_product e product_id db =
     (case uuid_UUID e product_id of
        None \<Rightarrow> (Inl (HTTPException 400 ''Invalid product ID format''), db)
      | Some uuid_obj \<Rightarrow>
         (case query_first e uuid_obj db of
            (Inl exn, db') \<Rightarrow>
              (Inl (HTTPException 500 ''Internal server error while retrieving product''), db')
          | (Inr None, db') \<Rightarrow> (Inl (HTTPException 404 ''Product not found''), db')
          | (Inr (Some product), db') \<Rightarrow> (Inr product, db')))"

text \<open>\<^verbatim>\<open>create_product\<close>: the two \<^verbatim>\<open>except\<close> clauses, then the handler. Both clauses
  roll back.\<close>

definition create_error :: "db_exn \<Rightarrow> HTTPException" where
  "create_error exn =
     (case exn of
        IntegrityError \<Rightarrow>
          HTTPException 409 ''Product creation failed due to constraint violation''
      | OtherSQLAlchemyError \<Rightarrow>
          HTTPException 500 ''Internal server error while creating product'')"

definition create_product ::
  "env \<Rightarrow> ProductCreate \<Rightarrow> Session \<Rightarrow> (HTTPException + Product) \<times> Session" where
  "create_product e product db =
     (case insert_one e (uuid4 e) (create_name product) (create_price product) db of
        (Inl exn, db') \<Rightarrow> (Inl (create_error exn), send Rollback db')
      | (Inr _, db') \<Rightarrow>
         (case refresh e (uuid4 e) db' of
            (Inl exn, db'') \<Rightarrow> (Inl (create_error exn), send Rollback db'')
          | (Inr new_product, db'') \<Rightarrow> (Inr new_product, db'')))"

text \<open>\<^verbatim>\<open>update_product\<close>: the lookup comes first, the test for an empty
  \<^verbatim>\<open>update_data\<close> second.\<close>

definition update_error :: "db_exn \<Rightarrow> HTTPException" where
  "update_error exn =
     (case exn of
        IntegrityError \<Rightarrow>
          HTTPException 409 ''Product update failed due to constraint violation''
      | OtherSQLAlchemyError \<Rightarrow>
          HTTPException 500 ''Internal server error while updating product'')"

definition update_product ::
  "env \<Rightarrow> string \<Rightarrow> ProductUpdate \<Rightarrow> Session \<Rightarrow> (HTTPException + Product) \<times> Session" where
  "update_product e product_id product db =
     (case uuid_UUID e product_id of
        None \<Rightarrow> (Inl (HTTPException 400 ''Invalid product ID format''), db)
      | Some uuid_obj \<Rightarrow>
         (case query_first e uuid_obj db of
            (Inl exn, db') \<Rightarrow> (Inl (update_error exn), send Rollback db')
          | (Inr None, db') \<Rightarrow> (Inl (HTTPException 404 ''Product not found''), db')
          | (Inr (Some product_to_update), db') \<Rightarrow>
              if update_data_empty product then
                (Inl (HTTPException 400 ''No valid fields provided for update''), db')
              else
                (case update_by_key e uuid_obj
                        (setattr_field (update_name product) (name product_to_update))
                        (setattr_field (update_price product) (price product_to_update))
                        (now e) db' of
                   (Inl exn, db'') \<Rightarrow> (Inl (update_error exn), send Rollback db'')
                 | (Inr _, db'') \<Rightarrow>
                    (case refresh e uuid_obj db'' of
                       (Inl exn, db''') \<Rightarrow> (Inl (update_error exn), send Rollback db''')
                     | (Inr updated, db''') \<Rightarrow> (Inr updated, db''')))))"

text \<open>\<^verbatim>\<open>delete_product\<close>. The value returned is the dictionary
  \<^verbatim>\<open>{"message": "Product deleted successfully"}\<close>, here its one string.\<close>

definition delete_product ::
  "env \<Rightarrow> string \<Rightarrow> Session \<Rightarrow> (HTTPException + string) \<times> Session" where
  "delete_product e product_id db =
     (case uuid_UUID e product_id of
        None \<Rightarrow> (Inl (HTTPException 400 ''Invalid product ID format''), db)
      | Some uuid_obj \<Rightarrow>
         (case query_first e uuid_obj db of
            (Inl exn, db') \<Rightarrow>
              (Inl (HTTPException 500 ''Internal server error while deleting product''),
               send Rollback db')
          | (Inr None, db') \<Rightarrow> (Inl (HTTPException 404 ''Product not found''), db')
          | (Inr (Some product_to_delete), db') \<Rightarrow>
             (case delete_by_key e uuid_obj db' of
                (Inl exn, db'') \<Rightarrow>
                  (Inl (HTTPException 500 ''Internal server error while deleting product''),
                   send Rollback db'')
              | (Inr _, db'') \<Rightarrow> (Inr ''Product deleted successfully'', db''))))"

subsection \<open>The routes\<close>

text \<open>What the framework does around a handler, as the decorators declare it: the body
  of a POST or PATCH is validated against its schema before the handler runs (422
  otherwise); a raised \<^verbatim>\<open>HTTPException\<close> becomes a response with its status and
  \<^verbatim>\<open>{"detail": ...}\<close>; a returned value is checked against \<^verbatim>\<open>response_model\<close> and sent
  with the decorator's \<^verbatim>\<open>status_code\<close>.\<close>

datatype body =
  is_Product_list: Product_list "Product list"
| Product_body Product
| Message string
| Detail string
| Validation_error
| Response_validation_error

type_synonym response = "nat \<times> body"

definition respond_product :: "nat \<Rightarrow> HTTPException + Product \<Rightarrow> response" where
  "respond_product ok r =
     (case r of
        Inl exn \<Rightarrow> (status_code exn, Detail (detail exn))
      | Inr p \<Rightarrow>
          if ProductBase_valid p then (ok, Product_body p)
          else (500, Response_validation_error))"

definition respond_products :: "nat \<Rightarrow> HTTPException + Product list \<Rightarrow> response" where
  "respond_products ok r =
     (case r of
        Inl exn \<Rightarrow> (status_code exn, Detail (detail exn))
      | Inr ps \<Rightarrow>
          if list_all ProductBase_valid ps then (ok, Product_list ps)
          else (500, Response_validation_error))"

definition respond_message :: "nat \<Rightarrow> HTTPException + string \<Rightarrow> response" where
  "respond_message ok r =
     (case r of
        Inl exn \<Rightarrow> (status_code exn, Detail (detail exn))
      | Inr m \<Rightarrow> (ok, Message m))"

definition GET_products ::
  "env \<Rightarrow> int \<Rightarrow> int \<Rightarrow> int \<Rightarrow> string \<Rightarrow> Session \<Rightarrow> response \<times> Session" where
  "GET_products e page limit offset order_by db =
     (case get_products e page limit offset order_by db of
        (r, db') \<Rightarrow> (respond_products 200 r, db'))"

definition GET_product :: "env \<Rightarrow> string \<Rightarrow> Session \<Rightarrow> response \<times> Session" where
  "GET_product e product_id db =
     (case get_product e product_id db of (r, db') \<Rightarrow> (respond_product 200 r, db'))"

definition POST_products :: "env \<Rightarrow> ProductCreate \<Rightarrow> Session \<Rightarrow> response \<times> Session" where
  "POST_products e product db =
     (if ProductCreate_valid product then
        (case create_product e product db of (r, db') \<Rightarrow> (respond_product 201 r, db'))
      else ((422, Validation_error), db))"

definition PATCH_product ::
  "env \<Rightarrow> string \<Rightarrow> ProductUpdate \<Rightarrow> Session \<Rightarrow> response \<times> Session" where
  "PATCH_product e product_id product db =
     (if ProductUpdate_valid product then
        (case update_product e product_id product db of
           (r, db') \<Rightarrow> (respond_product 200 r, db'))
      else ((422, Validation_error), db))"

definition DELETE_product :: "env \<Rightarrow> string \<Rightarrow> Session \<Rightarrow> response \<times> Session" where
  "DELETE_product e product_id db =
     (case delete_product e product_id db of (r, db') \<Rightarrow> (respond_message 200 r, db'))"

subsection \<open>Sequences of requests\<close>

datatype request =
  List_products int int int string
| Get_product string
| Create_product ProductCreate
| Update_product string ProductUpdate
| Delete_product string

fun serve :: "env \<Rightarrow> request \<Rightarrow> Session \<Rightarrow> response \<times> Session" where
  "serve e (List_products page limit offset order_by) db =
     GET_products e page limit offset order_by db"
| "serve e (Get_product product_id) db = GET_product e product_id db"
| "serve e (Create_product product) db = POST_products e product db"
| "serve e (Update_product product_id product) db = PATCH_product e product_id product db"
| "serve e (Delete_product product_id) db = DELETE_product e product_id db"

fun run :: "(env \<times> request) list \<Rightarrow> Session \<Rightarrow> Session" where
  "run [] db = db"
| "run ((e, r) # rs) db = run rs (snd (serve e r db))"

text \<open>The invariant of section 3 of the specification: every stored row has a positive
  price and a non-empty name.\<close>

definition stored_ok :: "Session \<Rightarrow> bool" where
  "stored_ok db = list_all (\<lambda>p. 0 < price p \<and> name p \<noteq> []) (table db)"

subsection \<open>Sample requests\<close>

text \<open>Concrete inputs on which the theorems below are run. \<open>hex32_UUID\<close> is a sample
  instance of the parser parameter: it accepts exactly the strings of 32 lower-case
  hexadecimal digits, which \<^verbatim>\<open>uuid.UUID\<close> accepts with the same value, and nothing else.
  No theorem about the handlers depends on it.\<close>

definition hex_digit :: "char \<Rightarrow> nat option" where
  "hex_digit c =
     (if CHR ''0'' \<le> c \<and> c \<le> CHR ''9'' then Some (of_char c - 48)
      else if CHR ''a'' \<le> c \<and> c \<le> CHR ''f'' then Some (of_char c - 87)
      else None)"

fun hex_value :: "nat \<Rightarrow> string \<Rightarrow> nat option" where
  "hex_value acc [] = Some acc"
| "hex_value acc (c # cs) =
     (case hex_digit c of None \<Rightarrow> None | Some d \<Rightarrow> hex_value (16 * acc + d) cs)"

definition hex32_UUID :: "string \<Rightarrow> uuid option" where
  "hex32_UUID s = (if length s = 32 then map_option word_of_nat (hex_value 0 s) else None)"

definition id7 :: string where
  "id7 = ''00000000000000000000000000000007''"

definition first_request :: env where
  "first_request = \<lparr>uuid_UUID = hex32_UUID, uuid4 = 7, now = 1000, engine_fails = False\<rparr>"

definition second_request :: env where
  "second_request = \<lparr>uuid_UUID = hex32_UUID, uuid4 = 42, now = 2000, engine_fails = False\<rparr>"

definition empty_db :: Session where
  "empty_db = \<lparr>table = [], sent = []\<rparr>"

definition widget :: ProductCreate where
  "widget = \<lparr>create_name = ''Widget'', create_price = 500\<rparr>"

definition widget_row :: Product where
  "widget_row = \<lparr>pid = 7, name = ''Widget'', price = 500, created_at = 1000, updated_at = 1000\<rparr>"

definition widget_db :: Session where
  "widget_db = \<lparr>table = [widget_row], sent = []\<rparr>"

definition no_fields :: ProductUpdate where
  "no_fields = \<lparr>update_name = Unset, update_price = Unset\<rparr>"

definition price_600 :: ProductUpdate where
  "price_600 = \<lparr>update_name = Unset, update_price = Given (Some 600)\<rparr>"

section \<open>Properties\<close>

subsection \<open>Lookups in the table\<close>


lemma find_filter_out: "find (\<lambda>p. f p = u) (filter (\<lambda>r. f r \<noteq> u) xs) = None"
  by (induction xs) auto

lemma find_Some_mem: "find P xs = Some x \<Longrightarrow> x \<in> set xs \<and> P x"
  by (induction xs) (auto split: if_splits)

lemma find_map_update:
  assumes "find (\<lambda>p. pid p = u) xs = Some old" and "\<And>r. pid (g r) = pid r"
  shows "find (\<lambda>p. pid p = u) (map (\<lambda>r. if pid r = u then g r else r) xs) = Some (g old)"
  using assms by (induction xs) (auto split: if_splits)

lemma sample_ids:
  "hex32_UUID id7 = Some 7" "hex32_UUID ''not-a-uuid'' = None"
  by (simp_all add: hex32_UUID_def hex_digit_def id7_def)

lemma table_send [simp]: "table (send st db) = table db"
  by (simp add: send_def)

subsection \<open>Create, then Get\<close>



subsection \<open>The stored rows stay valid\<close>

lemma stored_ok_send [simp]: "stored_ok (send st db) = stored_ok db"
  by (simp add: stored_ok_def send_def)

lemma table_get_products: "table (snd (get_products e page limit offset order_by db)) = table db"
  by (simp add: get_products_def query_page_def split: option.splits)

lemma table_get_product: "table (snd (get_product e product_id db)) = table db"
  by (simp add: get_product_def query_first_def split: option.splits)

lemma stored_ok_create:
  assumes "stored_ok db" and "ProductCreate_valid product"
  shows "stored_ok (snd (create_product e product db))"
  using assms
  by (auto simp add: create_product_def insert_one_def refresh_def stored_ok_def
      ProductCreate_valid_def split: option.splits)

text \<open>An update writes, for each column, either the old value of a valid row or a value
  that passed the schema; a \<^verbatim>\<open>null\<close> is refused by the engine and nothing is written.\<close>

lemma stored_ok_update:
  assumes "stored_ok db" and "ProductUpdate_valid product"
  shows "stored_ok (snd (update_product e product_id product db))"
proof (cases "uuid_UUID e product_id")
  case None
  then show ?thesis using assms by (simp add: update_product_def)
next
  case parsed: (Some u)
  show ?thesis
  proof (cases "find (\<lambda>p. pid p = u) (table db)")
    case None
    then show ?thesis using parsed assms
      by (simp add: update_product_def query_first_def)
  next
    case (Some old)
    then have old: "0 < price old \<and> name old \<noteq> []"
      using assms(1) find_Some_mem [OF Some] by (simp add: stored_ok_def list_all_iff)
    have n: "n \<noteq> []" if "setattr_field (update_name product) (name old) = Some n" for n
      using that old assms(2)
      by (auto simp add: setattr_field_def ProductUpdate_valid_def
          split: field.splits option.splits)
    have c: "0 < c" if "setattr_field (update_price product) (price old) = Some c" for c
      using that old assms(2)
      by (auto simp add: setattr_field_def ProductUpdate_valid_def
          split: field.splits option.splits)
    show ?thesis
      using parsed Some assms(1) n c
      by (auto simp add: update_product_def query_first_def update_by_key_def refresh_def
          stored_ok_def list_all_iff split: option.splits)
  qed
qed

lemma stored_ok_delete:
  assumes "stored_ok db"
  shows "stored_ok (snd (delete_product e product_id db))"
  using assms
  by (auto simp add: delete_product_def query_first_def delete_by_key_def stored_ok_def
      list_all_iff split: option.splits)

lemma stored_ok_serve:
  assumes "stored_ok db"
  shows "stored_ok (snd (serve e r db))"
proof (cases r)
  case (List_products page limit offset order_by)
  then show ?thesis using assms table_get_products [of e page limit offset order_by db]
    by (simp add: GET_products_def stored_ok_def case_prod_beta)
next
  case (Get_product product_id)
  then show ?thesis using assms table_get_product [of e product_id db]
    by (simp add: GET_product_def stored_ok_def case_prod_beta)
next
  case (Create_product product)
  then show ?thesis using assms stored_ok_create [of db product e]
    by (simp add: POST_products_def case_prod_beta)
next
  case (Update_product product_id product)
  then show ?thesis using assms stored_ok_update [of db product e product_id]
    by (simp add: PATCH_product_def case_prod_beta)
next
  case (Delete_product product_id)
  then show ?thesis using assms stored_ok_delete [of db e product_id]
    by (simp add: DELETE_product_def case_prod_beta)
qed

lemma stored_ok_run: "stored_ok db \<Longrightarrow> stored_ok (run rs db)"
  by (induction rs arbitrary: db) (auto simp add: stored_ok_serve)

text \<open>
  Claim C2. Every Product in storage has a price above 0 and a non-empty name, and each of
  the five operations (List, Get, Create, Update, Delete) preserves this: the empty table
  satisfies it, one request of any kind, successful or not, leads from a table that
  satisfies it to one that does, and so does every sequence of requests. No sequence of
  operations that starts from valid storage stores a Product with price at most 0 or with
  an empty name.
\<close>

theorem stored_products_stay_valid:
  "stored_ok empty_db
   \<and> (stored_ok db \<longrightarrow> stored_ok (snd (serve e r db)))
   \<and> (stored_ok db \<longrightarrow> stored_ok (run rs db))"
  using stored_ok_serve stored_ok_run by (simp add: stored_ok_def empty_db_def)

theorem stored_products_stay_valid_witness:
  "stored_ok empty_db
   \<and> stored_ok (snd (serve second_request (Update_product id7 price_600) widget_db))
   \<and> table (run [(first_request, Create_product widget),
                  (second_request, Update_product id7 price_600)] empty_db) =
       [widget_row\<lparr>price := 600, updated_at := 2000\<rparr>]
   \<and> stored_ok (run [(first_request, Create_product widget),
                      (second_request, Update_product id7 price_600)] empty_db)"
proof -
  have start: "stored_ok widget_db"
    by (simp add: stored_ok_def widget_db_def widget_row_def)
  have stored: "table (run [(first_request, Create_product widget),
                  (second_request, Update_product id7 price_600)] empty_db) =
       [widget_row\<lparr>price := 600, updated_at := 2000\<rparr>]"
    by (simp add: POST_products_def PATCH_product_def create_product_def update_product_def
        insert_one_def refresh_def query_first_def update_by_key_def send_def
        ProductCreate_valid_def ProductUpdate_valid_def update_data_empty_def
        setattr_field_def sample_ids first_request_def second_request_def empty_db_def
        widget_def widget_row_def price_600_def)
  show ?thesis
    using start stored
      stored_products_stay_valid [of widget_db second_request "Update_product id7 price_600"
        "[]"]
      stored_products_stay_valid [of empty_db first_request "Create_product widget"
        "[(first_request, Create_product widget),
          (second_request, Update_product id7 price_600)]"]
    by simp
qed

subsection \<open>Listing\<close>

text \<open>
  Claim C3, as the specification states it: for every state of storage in which zero
  products match, List answers 200 with a list body (possibly empty), not an error
  response. On the empty table the status is 200, and the body is the payload of the
  raised \<^verbatim>\<open>HTTPException\<close>, \<^verbatim>\<open>{"detail": "No products found"}\<close>, which is not a list.
\<close>

theorem list_empty_counterexample:
  "fst (GET_products first_request 1 10 0 ''created_at'' empty_db) =
     (200, Detail ''No products found'')
   \<and> \<not> is_Product_list (snd (fst (GET_products first_request 1 10 0 ''created_at'' empty_db)))"
  by (simp add: GET_products_def respond_products_def get_products_def query_page_def
      order_rows_def send_def first_request_def empty_db_def)

text \<open>
  Claim C3, amended: for every state of storage in which the query of List returns zero
  rows, the handler raises \<^verbatim>\<open>HTTPException(200, "No products found")\<close> and List answers
  with status 200 and the body \<^verbatim>\<open>{"detail": "No products found"}\<close>; the status is never
  an error status, and the body is not a list.
\<close>

theorem list_empty_is_200_detail:
  assumes "fst (query_page e order_by limit offset db) = Inr []"
  shows "fst (get_products e page limit offset order_by db) =
           Inl (HTTPException 200 ''No products found'')
       \<and> fst (GET_products e page limit offset order_by db) =
           (200, Detail ''No products found'')"
  using assms
  by (auto simp add: GET_products_def respond_products_def get_products_def
      split: prod.splits sum.splits)

theorem list_empty_is_200_detail_witness:
  "fst (query_page second_request ''price'' 10 1 widget_db) = Inr []
   \<and> fst (get_products second_request 1 10 1 ''price'' widget_db) =
       Inl (HTTPException 200 ''No products found'')
   \<and> fst (GET_products second_request 1 10 1 ''price'' widget_db) =
       (200, Detail ''No products found'')"
proof -
  have none: "fst (query_page second_request ''price'' 10 1 widget_db) = Inr []"
    by (simp add: query_page_def order_rows_def second_request_def widget_db_def)
  show ?thesis
    using none list_empty_is_200_detail [OF none, of 1] by simp
qed

text \<open>
  Claim C9. The result of List does not depend on the parameter \<open>page\<close>: for every state
  of storage, two List requests that agree on limit, offset and order_by and differ in
  page get equal responses (and leave the same state behind).
\<close>

theorem list_ignores_page:
  "get_products e page limit offset order_by db = get_products e page' limit offset order_by db
   \<and> GET_products e page limit offset order_by db =
       GET_products e page' limit offset order_by db"
  by (simp add: get_products_def GET_products_def)

theorem list_ignores_page_witness:
  "GET_products second_request 1 10 0 ''created_at'' widget_db =
     GET_products second_request 5 10 0 ''created_at'' widget_db
   \<and> fst (GET_products second_request 5 10 0 ''created_at'' widget_db) =
       (200, Product_list [widget_row])"
proof -
  have "fst (GET_products second_request 1 10 0 ''created_at'' widget_db) =
       (200, Product_list [widget_row])"
    by (simp add: GET_products_def respond_products_def get_products_def query_page_def
        order_rows_def send_def second_request_def widget_db_def widget_row_def
        ProductBase_valid_def)
  then show ?thesis
    using list_ignores_page [of second_request 1 10 0 "''created_at''" widget_db 5]
    by simp
qed

subsection \<open>Identifiers that do not parse, and identifiers that are not stored\<close>

text \<open>
  Claim C7. For every string that is not a syntactically valid 128-bit identifier (the
  parser raises \<^verbatim>\<open>ValueError\<close>), Get, Update and Delete each answer with the client
  error 400 and perform no storage query at all: the session comes back as it went in,
  table and list of sent statements alike, whether or not the engine is reachable. For
  Update this is the handler on any body, and the route on any body that passes the
  schema.
\<close>

theorem malformed_id_is_400_without_query:
  assumes "uuid_UUID e product_id = None"
  shows "get_product e product_id db =
           (Inl (HTTPException 400 ''Invalid product ID format''), db)
       \<and> update_product e product_id product db =
           (Inl (HTTPException 400 ''Invalid product ID format''), db)
       \<and> delete_product e product_id db =
           (Inl (HTTPException 400 ''Invalid product ID format''), db)
       \<and> GET_product e product_id db = ((400, Detail ''Invalid product ID format''), db)
       \<and> (ProductUpdate_valid product \<longrightarrow>
            PATCH_product e product_id product db =
              ((400, Detail ''Invalid product ID format''), db))
       \<and> DELETE_product e product_id db = ((400, Detail ''Invalid product ID format''), db)"
  using assms
  by (simp add: get_product_def update_product_def delete_product_def GET_product_def
      PATCH_product_def DELETE_product_def respond_product_def respond_message_def)

theorem malformed_id_is_400_without_query_witness:
  "uuid_UUID first_request ''not-a-uuid'' = None
   \<and> ProductUpdate_valid price_600
   \<and> GET_product first_request ''not-a-uuid'' widget_db =
       ((400, Detail ''Invalid product ID format''), widget_db)
   \<and> PATCH_product first_request ''not-a-uuid'' price_600 widget_db =
       ((400, Detail ''Invalid product ID format''), widget_db)
   \<and> DELETE_product first_request ''not-a-uuid'' widget_db =
       ((400, Detail ''Invalid product ID format''), widget_db)
   \<and> sent widget_db = []"
proof -
  have bad: "uuid_UUID first_request ''not-a-uuid'' = None"
    by (simp add: first_request_def sample_ids)
  have ok: "ProductUpdate_valid price_600"
    by (simp add: ProductUpdate_valid_def price_600_def)
  show ?thesis
    using bad ok malformed_id_is_400_without_query [OF bad, of widget_db price_600]
    by (simp add: widget_db_def)
qed

text \<open>
  Claim C6. For every syntactically valid identifier that is not present in storage, Get,
  Update and Delete each answer with the not-found error 404, never with the internal
  error 500. The engine answers the lookup (that is how the identifier is found to be
  absent); the lookup is the one statement sent. For Update this is the handler on any
  body, and the route on any body that passes the schema.
\<close>

theorem absent_id_is_404:
  assumes "uuid_UUID e product_id = Some u"
    and "find (\<lambda>p. pid p = u) (table db) = None"
    and "\<not> engine_fails e"
  shows "get_product e product_id db =
           (Inl (HTTPException 404 ''Product not found''), send (Select_by_id u) db)
       \<and> update_product e product_id product db =
           (Inl (HTTPException 404 ''Product not found''), send (Select_by_id u) db)
       \<and> delete_product e product_id db =
           (Inl (HTTPException 404 ''Product not found''), send (Select_by_id u) db)
       \<and> fst (GET_product e product_id db) = (404, Detail ''Product not found'')
       \<and> (ProductUpdate_valid product \<longrightarrow>
            fst (PATCH_product e product_id product db) = (404, Detail ''Product not found''))
       \<and> fst (DELETE_product e product_id db) = (404, Detail ''Product not found'')"
  using assms
  by (simp add: get_product_def update_product_def delete_product_def query_first_def
      GET_product_def PATCH_product_def DELETE_product_def respond_product_def
      respond_message_def)

theorem absent_id_is_404_witness:
  "uuid_UUID first_request id7 = Some 7
   \<and> find (\<lambda>p. pid p = 7) (table empty_db) = None
   \<and> \<not> engine_fails first_request
   \<and> ProductUpdate_valid price_600
   \<and> fst (GET_product first_request id7 empty_db) = (404, Detail ''Product not found'')
   \<and> fst (PATCH_product first_request id7 price_600 empty_db) =
       (404, Detail ''Product not found'')
   \<and> fst (DELETE_product first_request id7 empty_db) = (404, Detail ''Product not found'')"
proof -
  have parsed: "uuid_UUID first_request id7 = Some 7"
    by (simp add: first_request_def sample_ids)
  have absent: "find (\<lambda>p. pid p = 7) (table empty_db) = None"
    by (simp add: empty_db_def)
  have up: "\<not> engine_fails first_request"
    by (simp add: first_request_def)
  have ok: "ProductUpdate_valid price_600"
    by (simp add: ProductUpdate_valid_def price_600_def)
  show ?thesis
    using parsed absent up ok absent_id_is_404 [OF parsed absent up, of price_600]
    by simp
qed

text \<open>
  Claim C10. For every syntactically valid identifier that is not present in storage, an
  Update request with an empty body (zero fields to change) answers with the not-found
  error 404 and not with the client error 400 of the empty payload: the existence lookup
  runs, and decides the outcome, before the test for an empty set of fields. The engine
  answers the lookup.
\<close>

theorem empty_update_of_absent_id_is_404:
  assumes "uuid_UUID e product_id = Some u"
    and "find (\<lambda>p. pid p = u) (table db) = None"
    and "\<not> engine_fails e"
    and "update_data_empty product"
  shows "update_product e product_id product db =
           (Inl (HTTPException 404 ''Product not found''), send (Select_by_id u) db)
       \<and> PATCH_product e product_id product db =
           ((404, Detail ''Product not found''), send (Select_by_id u) db)"
  using assms
  by (simp add: PATCH_product_def respond_product_def update_product_def query_first_def
      update_data_empty_def ProductUpdate_valid_def)

theorem empty_update_of_absent_id_is_404_witness:
  "update_data_empty no_fields
   \<and> PATCH_product first_request id7 no_fields empty_db =
       ((404, Detail ''Product not found''), \<lparr>table = [], sent = [Select_by_id 7]\<rparr>)"
proof -
  have parsed: "uuid_UUID first_request id7 = Some 7"
    by (simp add: first_request_def sample_ids)
  have absent: "find (\<lambda>p. pid p = 7) (table empty_db) = None"
    by (simp add: empty_db_def)
  have up: "\<not> engine_fails first_request"
    by (simp add: first_request_def)
  have empty: "update_data_empty no_fields"
    by (simp add: update_data_empty_def no_fields_def)
  show ?thesis
    using empty empty_update_of_absent_id_is_404 [OF parsed absent up empty]
    by (simp add: send_def empty_db_def)
qed

subsection \<open>Deleting twice\<close>

text \<open>
  Claim C8. For every id on which a Delete has just succeeded (it returned the
  confirmation payload), a second Delete with the same id, on the storage as the first
  left it, answers with the not-found error 404 and not with a second success. The second
  request reads the id as the first did, and the engine answers it.
\<close>

theorem second_delete_is_404:
  assumes "fst (DELETE_product e product_id db) = (200, Message ''Product deleted successfully'')"
    and "uuid_UUID e' product_id = uuid_UUID e product_id"
    and "\<not> engine_fails e'"
  shows "fst (DELETE_product e' product_id (snd (DELETE_product e product_id db))) =
           (404, Detail ''Product not found'')"
  using assms
  by (auto simp add: DELETE_product_def respond_message_def delete_product_def query_first_def
      delete_by_key_def send_def find_filter_out split: option.splits if_splits)

theorem second_delete_is_404_witness:
  "fst (DELETE_product first_request id7 widget_db) =
     (200, Message ''Product deleted successfully'')
   \<and> table (snd (DELETE_product first_request id7 widget_db)) = []
   \<and> fst (DELETE_product second_request id7 (snd (DELETE_product first_request id7 widget_db))) =
       (404, Detail ''Product not found'')"
proof -
  have once: "DELETE_product first_request id7 widget_db =
      ((200, Message ''Product deleted successfully''),
       \<lparr>table = [], sent = [Select_by_id 7, Delete_row 7]\<rparr>)"
    by (simp add: DELETE_product_def respond_message_def delete_product_def query_first_def
        delete_by_key_def send_def first_request_def sample_ids widget_db_def widget_row_def)
  have first: "fst (DELETE_product first_request id7 widget_db) =
      (200, Message ''Product deleted successfully'')"
    using once by simp
  have same: "uuid_UUID second_request id7 = uuid_UUID first_request id7"
    by (simp add: first_request_def second_request_def)
  have up: "\<not> engine_fails second_request"
    by (simp add: second_request_def)
  show ?thesis
    using once second_delete_is_404 [OF first same up] by simp
qed

subsection \<open>Updates\<close>

text \<open>
  Claim C4, as the specification states it: for every Update request whose parsed body
  yields zero fields to change, the operation answers with the client error 400, resolved
  entirely before any storage query runs, and the stored record is left unchanged. The
  handler looks the product up first. With an empty body and a well-formed id that is not
  stored, the answer is 404 and not 400; with an id that is stored, the answer is 400 and
  the lookup has already been sent to the engine.
\<close>

theorem empty_update_counterexample:
  "update_product first_request id7 no_fields empty_db =
     (Inl (HTTPException 404 ''Product not found''), \<lparr>table = [], sent = [Select_by_id 7]\<rparr>)
   \<and> update_product second_request id7 no_fields widget_db =
     (Inl (HTTPException 400 ''No valid fields provided for update''),
      \<lparr>table = [widget_row], sent = [Select_by_id 7]\<rparr>)"
  by (simp add: update_product_def query_first_def send_def update_data_empty_def sample_ids
      first_request_def second_request_def empty_db_def widget_db_def widget_row_def
      no_fields_def)

text \<open>
  Claim C4, amended: for every Update request whose parsed body yields zero fields to
  change, the stored table (every record and every field, \<^verbatim>\<open>updated_at\<close> included) is left
  unchanged; and when the id is well-formed and names a stored product and the engine
  answers, the operation answers with the client error 400, decided after the existence
  lookup, which is the one storage query that runs.
\<close>

theorem empty_update_is_400_after_lookup:
  assumes "update_data_empty product"
  shows "table (snd (update_product e product_id product db)) = table db
       \<and> table (snd (PATCH_product e product_id product db)) = table db
       \<and> (uuid_UUID e product_id = Some u \<and> find (\<lambda>p. pid p = u) (table db) = Some old
            \<and> \<not> engine_fails e \<longrightarrow>
          update_product e product_id product db =
            (Inl (HTTPException 400 ''No valid fields provided for update''),
             send (Select_by_id u) db)
          \<and> PATCH_product e product_id product db =
            ((400, Detail ''No valid fields provided for update''), send (Select_by_id u) db))"
  using assms
  by (auto simp add: PATCH_product_def respond_product_def ProductUpdate_valid_def
      update_data_empty_def update_product_def query_first_def send_def
      split: option.splits)

theorem empty_update_is_400_after_lookup_witness:
  "update_data_empty no_fields
   \<and> uuid_UUID second_request id7 = Some 7
   \<and> find (\<lambda>p. pid p = 7) (table widget_db) = Some widget_row
   \<and> \<not> engine_fails second_request
   \<and> PATCH_product second_request id7 no_fields widget_db =
       ((400, Detail ''No valid fields provided for update''),
        \<lparr>table = [widget_row], sent = [Select_by_id 7]\<rparr>)"
proof -
  have empty: "update_data_empty no_fields"
    by (simp add: update_data_empty_def no_fields_def)
  have parsed: "uuid_UUID second_request id7 = Some 7"
    by (simp add: second_request_def sample_ids)
  have stored: "find (\<lambda>p. pid p = 7) (table widget_db) = Some widget_row"
    by (simp add: widget_db_def widget_row_def)
  have up: "\<not> engine_fails second_request"
    by (simp add: second_request_def)
  show ?thesis
    using empty parsed stored up
      empty_update_is_400_after_lookup [OF empty, of second_request id7 widget_db 7 widget_row]
    by (simp add: send_def widget_db_def)
qed

text \<open>
  Claim C5. For every stored Product and every Update request that supplies only a price,
  a successful Update sets the price to the supplied value and \<^verbatim>\<open>updated_at\<close> to the
  current time, and leaves name, id and \<^verbatim>\<open>created_at\<close> as they were; such a request
  succeeds whenever the id is well-formed, the product is stored, the price passes the
  schema and the engine answers. In general, after any successful Update the id and
  \<^verbatim>\<open>created_at\<close> are unchanged, \<^verbatim>\<open>updated_at\<close> is the current time, and every field
  omitted from the body keeps its prior value. The record returned is the record stored.
\<close>

theorem update_changes_only_given_fields:
  assumes "uuid_UUID e product_id = Some u"
    and "find (\<lambda>p. pid p = u) (table db) = Some old"
    and "\<not> engine_fails e"
  shows "(0 < v \<longrightarrow>
            fst (PATCH_product e product_id
                   \<lparr>update_name = Unset, update_price = Given (Some v)\<rparr> db) =
              (200, Product_body (old\<lparr>price := v, updated_at := now e\<rparr>))
            \<and> find (\<lambda>p. pid p = u)
                (table (snd (PATCH_product e product_id
                   \<lparr>update_name = Unset, update_price = Given (Some v)\<rparr> db))) =
              Some (old\<lparr>price := v, updated_at := now e\<rparr>))
       \<and> (fst (update_product e product_id product db) = Inr updated \<longrightarrow>
            pid updated = pid old \<and> created_at updated = created_at old
            \<and> updated_at updated = now e
            \<and> (update_name product = Unset \<longrightarrow> name updated = name old)
            \<and> (update_price product = Unset \<longrightarrow> price updated = price old)
            \<and> find (\<lambda>p. pid p = u) (table (snd (update_product e product_id product db))) =
                Some updated)"
proof -
  have upd: "find (\<lambda>p. pid p = u)
         (map (\<lambda>r. if pid r = u then r\<lparr>name := n, price := c, updated_at := t\<rparr> else r)
            (table db)) = Some (old\<lparr>name := n, price := c, updated_at := t\<rparr>)" for n c t
    using find_map_update [OF assms(2), of "\<lambda>r. r\<lparr>name := n, price := c, updated_at := t\<rparr>"]
    by simp
  have price_only: "fst (PATCH_product e product_id
                   \<lparr>update_name = Unset, update_price = Given (Some v)\<rparr> db) =
              (200, Product_body (old\<lparr>price := v, updated_at := now e\<rparr>))
            \<and> find (\<lambda>p. pid p = u)
                (table (snd (PATCH_product e product_id
                   \<lparr>update_name = Unset, update_price = Given (Some v)\<rparr> db))) =
              Some (old\<lparr>price := v, updated_at := now e\<rparr>)"
    if "0 < v"
    using that assms
    by (simp add: PATCH_product_def respond_product_def update_product_def query_first_def
        update_by_key_def refresh_def send_def update_data_empty_def ProductUpdate_valid_def
        setattr_field_def ProductBase_valid_def upd)
  have frame: "pid updated = pid old \<and> created_at updated = created_at old
            \<and> updated_at updated = now e
            \<and> (update_name product = Unset \<longrightarrow> name updated = name old)
            \<and> (update_price product = Unset \<longrightarrow> price updated = price old)
            \<and> find (\<lambda>p. pid p = u) (table (snd (update_product e product_id product db))) =
                Some updated"
    if "fst (update_product e product_id product db) = Inr updated"
    using that assms
    by (auto simp add: update_product_def query_first_def update_by_key_def refresh_def
        send_def setattr_field_def upd split: if_splits option.splits field.splits)
  show ?thesis using price_only frame by blast
qed

theorem update_changes_only_given_fields_witness:
  "uuid_UUID second_request id7 = Some 7
   \<and> find (\<lambda>p. pid p = 7) (table widget_db) = Some widget_row
   \<and> \<not> engine_fails second_request
   \<and> fst (PATCH_product second_request id7 price_600 widget_db) =
       (200, Product_body \<lparr>pid = 7, name = ''Widget'', price = 600,
                           created_at = 1000, updated_at = 2000\<rparr>)
   \<and> find (\<lambda>p. pid p = 7) (table (snd (PATCH_product second_request id7 price_600 widget_db))) =
       Some \<lparr>pid = 7, name = ''Widget'', price = 600, created_at = 1000, updated_at = 2000\<rparr>"
proof -
  have parsed: "uuid_UUID second_request id7 = Some 7"
    by (simp add: second_request_def sample_ids)
  have stored: "find (\<lambda>p. pid p = 7) (table widget_db) = Some widget_row"
    by (simp add: widget_db_def widget_row_def)
  have up: "\<not> engine_fails second_request"
    by (simp add: second_request_def)
  show ?thesis
    using parsed stored up
      update_changes_only_given_fields [OF parsed stored up, of 600]
    by (simp add: price_600_def widget_row_def second_request_def)
qed

end
